theory Spec2Isabelle
  imports Complex_Main "HOL-Library.Word"
begin

section \<open>Data model of package proxy\<close>

text \<open>
  The package is one Go file, \<^verbatim>\<open>pkg/proxy/proxy.go\<close>. Its two constructors,
  \<^verbatim>\<open>MakeRoundTripper\<close> and \<^verbatim>\<open>MakeProxy\<close>, close over a \<^verbatim>\<open>ProxyConfig\<close>.

  Go's \<^verbatim>\<open>float64\<close> is modelled by \<^typ>\<open>real\<close>: every finite \<^verbatim>\<open>float64\<close> is a real
  number, and the code only compares such values and converts them to integers, both of
  which are exact. NaN and the infinities are outside the model. A \<^verbatim>\<open>time.Duration\<close> is
  an \<^verbatim>\<open>int64\<close> count of nanoseconds: a 64-bit word, read with \<^const>\<open>sint\<close>.

  Of the library's \<^verbatim>\<open>url.URL\<close>, \<^verbatim>\<open>http.Request\<close> and \<^verbatim>\<open>http.Response\<close> the records keep
  the fields that the package and \<^verbatim>\<open>ProxyRequest.SetURL\<close> read or write, and a few more
  to tell requests and responses apart. The configuration is read through a pointer by the
  closures; the model takes it as not changed after construction.
\<close>

type_synonym float64 = real
type_synonym Duration = "64 word"

datatype error = Error string

record URL =
  Scheme :: string
  Opaque :: string
  Host :: string
  Path :: string
  RawPath :: string
  RawQuery :: string

record Request =
  Method :: string
  URL :: URL
  Host :: string
  Header :: "(string \<times> string) list"
  Body :: string

record Response =
  StatusCode :: int
  Header :: "(string \<times> string) list"
  Body :: string

text \<open>
  \<^verbatim>\<open>http.RoundTripper\<close>: \<^verbatim>\<open>RoundTrip(*Request) (*Response, error)\<close>. Either component
  of the Go result may be \<^verbatim>\<open>nil\<close>. The call acts on a state \<open>'s\<close>.
\<close>

type_synonym Result = "Response option \<times> error option"
type_synonym 's RoundTripper = "Request \<Rightarrow> 's \<Rightarrow> Result \<times> 's"

text \<open>
  A \<^verbatim>\<open>log.Logger\<close> is a sink that accepts levelled events; its methods return nothing.
\<close>

datatype Logger = Sink nat
datatype Level = DebugLevel | InfoLevel
datatype keyval = DurationVal Duration | StringVal string

datatype event =
    Log Logger Level string "keyval list"
  | Sleep Duration
  | Forward Request

text \<open>
  The world a round trip acts on: the process-wide random source behind
  \<^verbatim>\<open>rand.ExpFloat64\<close> (the values it is going to return, in order, and how many were
  taken so far), the effects observed so far (oldest first), and the state \<open>'n\<close> on which the
  underlying transport acts.
\<close>

record 'n world =
  draws :: "nat \<Rightarrow> float64"
  drawn :: nat
  trace :: "event list"
  net :: 'n

record 'n ProxyConfig =
  DestURL :: string
  ProbDrop :: float64
  PreDelayRate :: float64
  PreDelayMax :: float64
  PostDelayRate :: float64
  PostDelayMax :: float64
  Seed :: "64 word"
  Transport :: "'n RoundTripper option"
  Logger :: "Logger option"

text \<open>
  What the package takes from its libraries and from the process: the package-level
  variables \<^verbatim>\<open>http.DefaultTransport\<close> and \<^verbatim>\<open>log.Default()\<close>, and the library functions
  \<^verbatim>\<open>url.Parse\<close> and \<^verbatim>\<open>URL.EscapedPath\<close> (the latter used by \<^verbatim>\<open>ProxyRequest.SetURL\<close>).
\<close>

record 'n platform =
  http_DefaultTransport :: "'n RoundTripper"
  log_Default :: Logger
  url_Parse :: "string \<Rightarrow> error + URL"
  EscapedPath :: "URL \<Rightarrow> string"

section \<open>Library operations the closures call\<close>

definition emit :: "event \<Rightarrow> 'n world \<Rightarrow> 'n world" where
  "emit e w = w\<lparr>trace := trace w @ [e]\<rparr>"

definition logger_Info :: "Logger \<Rightarrow> string \<Rightarrow> keyval list \<Rightarrow> 'n world \<Rightarrow> 'n world" where
  "logger_Info l msg kvs = emit (Log l InfoLevel msg kvs)"

definition logger_Debug :: "Logger \<Rightarrow> string \<Rightarrow> keyval list \<Rightarrow> 'n world \<Rightarrow> 'n world" where
  "logger_Debug l msg kvs = emit (Log l DebugLevel msg kvs)"

definition time_Sleep :: "Duration \<Rightarrow> 'n world \<Rightarrow> 'n world" where
  "time_Sleep d = emit (Sleep d)"

text \<open>\<^verbatim>\<open>rand.ExpFloat64()\<close> on the process-wide source: one value is taken.\<close>

definition rand_ExpFloat64 :: "'n world \<Rightarrow> float64 \<times> 'n world" where
  "rand_ExpFloat64 w = (draws w (drawn w), w\<lparr>drawn := drawn w + 1\<rparr>)"

text \<open>
  \<^verbatim>\<open>distuv.Exponential{Rate: rate}.Rand()\<close>. The struct is built without a \<^verbatim>\<open>Src\<close>, so
  the draw comes from the process-wide source and is divided by the rate (the rounding of
  the \<^verbatim>\<open>float64\<close> division is not modelled; the theorems on sampled delays speak about
  the value that \<^verbatim>\<open>Rand\<close> returns, whatever it is).
\<close>

definition Exponential_Rand :: "float64 \<Rightarrow> 'n world \<Rightarrow> float64 \<times> 'n world" where
  "Exponential_Rand rate w = (case rand_ExpFloat64 w of (rnd, w') \<Rightarrow> (rnd / rate, w'))"

text \<open>
  The conversion \<^verbatim>\<open>time.Duration(s)\<close> of a \<^verbatim>\<open>float64\<close> discards the fraction
  (truncation towards zero). Go leaves the result open when the truncated value does not
  fit into \<^verbatim>\<open>int64\<close>; the model keeps the low 64 bits there, and no theorem below reads
  the conversion outside the \<^verbatim>\<open>int64\<close> range.
\<close>

definition trunc :: "float64 \<Rightarrow> int" where
  "trunc s = (if 0 \<le> s then \<lfloor>s\<rfloor> else \<lceil>s\<rceil>)"

definition Duration_of_float64 :: "float64 \<Rightarrow> Duration" where
  "Duration_of_float64 s = word_of_int (trunc s)"

definition Millisecond :: Duration where
  "Millisecond = 1000000"

section \<open>MakeRoundTripper\<close>

text \<open>The closures \<^verbatim>\<open>preDelay\<close> and \<^verbatim>\<open>postDelay\<close> (lines 68 to 101).\<close>

definition preDelay :: "'n ProxyConfig \<Rightarrow> 'n world \<Rightarrow> Duration \<times> 'n world" where
  "preDelay cfg w =
     (if PreDelayRate cfg \<le> 0 then (0, w)
      else case Exponential_Rand (PreDelayRate cfg) w of (s, w') \<Rightarrow>
        let s = (if s > PreDelayMax cfg then PreDelayMax cfg else s)
        in (Duration_of_float64 s * Millisecond, w'))"

definition postDelay :: "'n ProxyConfig \<Rightarrow> 'n world \<Rightarrow> Duration \<times> 'n world" where
  "postDelay cfg w =
     (if PostDelayRate cfg \<le> 0 then (0, w)
      else case Exponential_Rand (PostDelayRate cfg) w of (s, w') \<Rightarrow>
        let s = (if s > PostDelayMax cfg then PostDelayMax cfg else s)
        in (Duration_of_float64 s * Millisecond, w'))"

text \<open>
  The call \<^verbatim>\<open>t.RoundTrip(r)\<close> of the underlying transport: it is observed, and it acts on
  the \<^const>\<open>net\<close> component only.
\<close>

definition t_RoundTrip :: "'n RoundTripper \<Rightarrow> Request \<Rightarrow> 'n world \<Rightarrow> Result \<times> 'n world" where
  "t_RoundTrip t r w =
     (case t r (net w) of (res, n') \<Rightarrow> (res, (emit (Forward r) w)\<lparr>net := n'\<rparr>))"

text \<open>
  The body of the returned \<^verbatim>\<open>roundTripperFunc\<close> (lines 104 to 127), with the logger and
  the transport that lines 48 to 57 selected. Between the first sleep and the forwarding
  the source has only the comment \<^verbatim>\<open>// Should the request be dropped? // TODO - Fill this in...\<close>;
  \<^verbatim>\<open>cfg.ProbDrop\<close> and \<^verbatim>\<open>cfg.Seed\<close> are never read.
\<close>

definition roundTrip ::
  "Logger \<Rightarrow> 'n RoundTripper \<Rightarrow> 'n ProxyConfig \<Rightarrow> 'n world RoundTripper" where
  "roundTrip logger t cfg r w0 =
     (let w1 = logger_Info logger ''Incoming request'' [] w0;
          (d, w2) = preDelay cfg w1;
          w3 = logger_Debug logger ''Sleeping for %s before request.'' [DurationVal d] w2;
          w4 = time_Sleep d w3;
          w5 = logger_Debug logger ''Sending request to %q'' [StringVal (DestURL cfg)] w4;
          (res, w6) = t_RoundTrip t r w5;
          (d', w7) = postDelay cfg w6;
          w8 = logger_Debug logger ''Sleeping for %s after response returned.'' [DurationVal d'] w7;
          w9 = time_Sleep d' w8;
          w10 = logger_Debug logger ''Returning response to client.'' [] w9
      in (res, w10))"

definition MakeRoundTripper ::
  "'n platform \<Rightarrow> 'n ProxyConfig \<Rightarrow> error + 'n world RoundTripper" where
  "MakeRoundTripper env cfg =
     (let logger = (case Logger cfg of None \<Rightarrow> log_Default env | Some l \<Rightarrow> l);
          t = (case Transport cfg of None \<Rightarrow> http_DefaultTransport env | Some t \<Rightarrow> t)
      in Inr (roundTrip logger t cfg))"

section \<open>MakeProxy\<close>

text \<open>
  \<^verbatim>\<open>httputil.ProxyRequest\<close> holds the inbound request and the outbound copy that the
  \<^verbatim>\<open>Rewrite\<close> hook may change; \<^verbatim>\<open>httputil.ReverseProxy\<close> is the handler, of which the
  package sets the two fields \<^verbatim>\<open>Transport\<close> and \<^verbatim>\<open>Rewrite\<close>.
\<close>

record ProxyRequest =
  In :: Request
  Out :: Request

record 'n ReverseProxy =
  Transport :: "'n world RoundTripper"
  Rewrite :: "ProxyRequest \<Rightarrow> ProxyRequest"

text \<open>
  \<^verbatim>\<open>ProxyRequest.SetURL(target)\<close> of the library: it routes the outbound request to the
  scheme, host and base path of the target, joins the queries, and clears the outbound
  \<^verbatim>\<open>Host\<close>.
\<close>

definition singleJoiningSlash :: "string \<Rightarrow> string \<Rightarrow> string" where
  "singleJoiningSlash a b =
     (let aslash = (a \<noteq> [] \<and> last a = CHR ''/'');
          bslash = (b \<noteq> [] \<and> hd b = CHR ''/'')
      in if aslash \<and> bslash then a @ tl b
         else if \<not> aslash \<and> \<not> bslash then a @ ''/'' @ b
         else a @ b)"

definition joinURLPath :: "'n platform \<Rightarrow> URL \<Rightarrow> URL \<Rightarrow> string \<times> string" where
  "joinURLPath env a b =
     (if RawPath a = [] \<and> RawPath b = [] then (singleJoiningSlash (Path a) (Path b), [])
      else
        let apath = EscapedPath env a;
            bpath = EscapedPath env b;
            aslash = (apath \<noteq> [] \<and> last apath = CHR ''/'');
            bslash = (bpath \<noteq> [] \<and> hd bpath = CHR ''/'')
        in if aslash \<and> bslash then (Path a @ tl (Path b), apath @ tl bpath)
           else if \<not> aslash \<and> \<not> bslash then (Path a @ ''/'' @ Path b, apath @ ''/'' @ bpath)
           else (Path a @ Path b, apath @ bpath))"

definition rewriteRequestURL :: "'n platform \<Rightarrow> Request \<Rightarrow> URL \<Rightarrow> Request" where
  "rewriteRequestURL env req target =
     (let targetQuery = RawQuery target;
          u = (URL req)\<lparr>Scheme := Scheme target, URL.Host := URL.Host target\<rparr>;
          (p, rp) = joinURLPath env target u;
          u = u\<lparr>Path := p, RawPath := rp\<rparr>;
          u = (if targetQuery = [] \<or> RawQuery u = []
               then u\<lparr>RawQuery := targetQuery @ RawQuery u\<rparr>
               else u\<lparr>RawQuery := targetQuery @ ''&'' @ RawQuery u\<rparr>)
      in req\<lparr>URL := u\<rparr>)"

definition SetURL :: "'n platform \<Rightarrow> ProxyRequest \<Rightarrow> URL \<Rightarrow> ProxyRequest" where
  "SetURL env r target = r\<lparr>Out := (rewriteRequestURL env (Out r) target)\<lparr>Request.Host := []\<rparr>\<rparr>"

text \<open>The \<^verbatim>\<open>Rewrite\<close> closure of lines 146 to 149, over the parsed destination \<open>u\<close>.\<close>

definition rewrite :: "'n platform \<Rightarrow> URL \<Rightarrow> ProxyRequest \<Rightarrow> ProxyRequest" where
  "rewrite env u r =
     (let r = SetURL env r u
      in r\<lparr>Out := (Out r)\<lparr>Request.Host := Request.Host (In r)\<rparr>\<rparr>)"

definition MakeProxy :: "'n platform \<Rightarrow> 'n ProxyConfig \<Rightarrow> error + 'n ReverseProxy" where
  "MakeProxy env cfg =
     (case url_Parse env (DestURL cfg) of
        Inl err \<Rightarrow> Inl err
      | Inr u \<Rightarrow>
          (case MakeRoundTripper env cfg of
             Inl err \<Rightarrow> Inl err
           | Inr rt \<Rightarrow> Inr \<lparr>Transport = rt, Rewrite = rewrite env u\<rparr>))"

section \<open>Observations on a trace\<close>

fun is_Log :: "event \<Rightarrow> bool" where
  "is_Log (Log l lv msg kvs) = True"
| "is_Log e = False"

text \<open>The effects other than log events, the sleeps, and the forwarded requests.\<close>

definition effects :: "event list \<Rightarrow> event list" where
  "effects es = filter (\<lambda>e. \<not> is_Log e) es"

fun sleeps :: "event list \<Rightarrow> Duration list" where
  "sleeps [] = []"
| "sleeps (Sleep d # es) = d # sleeps es"
| "sleeps (e # es) = sleeps es"

fun forwards :: "event list \<Rightarrow> Request list" where
  "forwards [] = []"
| "forwards (Forward r # es) = r # forwards es"
| "forwards (e # es) = forwards es"

text \<open>\<^verbatim>\<open>URL.IsAbs\<close> of the library: a URL is absolute when its scheme is not empty.\<close>

definition IsAbs :: "URL \<Rightarrow> bool" where
  "IsAbs u = (Scheme u \<noteq> [])"

section \<open>A platform to run the package on\<close>

text \<open>
  The theorems below hold for every platform. To run the package on concrete inputs the
  library's \<^verbatim>\<open>url.Parse\<close> is needed; what follows is its algorithm on \<^emph>\<open>plain\<close>
  strings: ASCII letters and digits and the characters \<^verbatim>\<open>/ : . - _ ~\<close>. Such a string
  has no control byte, fragment, query, userinfo, bracketed host or percent escape, so the
  library's steps for those are not entered, and unescaping leaves host and path as they
  are. The library wraps the errors below in a \<^verbatim>\<open>*url.Error\<close>; the model keeps the
  inner message.
\<close>

definition isLetter :: "char \<Rightarrow> bool" where
  "isLetter c = (let n = (of_char c :: nat) in (97 \<le> n \<and> n \<le> 122) \<or> (65 \<le> n \<and> n \<le> 90))"

definition isDigit :: "char \<Rightarrow> bool" where
  "isDigit c = (let n = (of_char c :: nat) in 48 \<le> n \<and> n \<le> 57)"

definition plain :: "char \<Rightarrow> bool" where
  "plain c = (isLetter c \<or> isDigit c \<or> c \<in> set ''/:.-_~'')"

definition toLower :: "char \<Rightarrow> char" where
  "toLower c = (let n = (of_char c :: nat) in if 65 \<le> n \<and> n \<le> 90 then char_of (n + 32) else c)"

text \<open>
  \<^verbatim>\<open>getScheme(rawURL)\<close>: the loop over the bytes of \<^verbatim>\<open>rawURL\<close>, with the bytes before
  index \<open>i\<close> in \<open>pre\<close> and those from \<open>i\<close> on in the last argument.
\<close>

fun getScheme_from :: "string \<Rightarrow> string \<Rightarrow> string \<Rightarrow> error + string \<times> string" where
  "getScheme_from rawURL pre [] = Inr ([], rawURL)"
| "getScheme_from rawURL pre (c # cs) =
     (if isLetter c then getScheme_from rawURL (pre @ [c]) cs
      else if isDigit c \<or> c = CHR ''+'' \<or> c = CHR ''-'' \<or> c = CHR ''.'' then
        (if pre = [] then Inr ([], rawURL) else getScheme_from rawURL (pre @ [c]) cs)
      else if c = CHR '':'' then
        (if pre = [] then Inl (Error ''missing protocol scheme'') else Inr (pre, cs))
      else Inr ([], rawURL))"

definition getScheme :: "string \<Rightarrow> error + string \<times> string" where
  "getScheme rawURL = getScheme_from rawURL [] rawURL"

definition hasPrefix :: "string \<Rightarrow> string \<Rightarrow> bool" where
  "hasPrefix s p = (take (length p) s = p)"

definition validOptionalPort :: "string \<Rightarrow> bool" where
  "validOptionalPort port = (port = [] \<or> (hd port = CHR '':'' \<and> list_all isDigit (tl port)))"

text \<open>\<^verbatim>\<open>parseHost\<close> on a plain host: only the port after the last colon is checked.\<close>

definition parseHost :: "string \<Rightarrow> error + string" where
  "parseHost host =
     (if CHR '':'' \<in> set host
         \<and> \<not> validOptionalPort (CHR '':'' # rev (takeWhile (\<lambda>c. c \<noteq> CHR '':'') (rev host)))
      then Inl (Error ''invalid port after host'')
      else Inr host)"

definition parse :: "string \<Rightarrow> error + URL" where
  "parse rawURL =
     (case getScheme rawURL of
        Inl err \<Rightarrow> Inl err
      | Inr (scheme, rest) \<Rightarrow>
          let scheme = map toLower scheme;
              url = \<lparr>Scheme = scheme, Opaque = [], Host = [], Path = [], RawPath = [], RawQuery = []\<rparr>
          in if \<not> hasPrefix rest ''/'' \<and> scheme \<noteq> [] then Inr (url\<lparr>Opaque := rest\<rparr>)
             else if \<not> hasPrefix rest ''/''
                     \<and> CHR '':'' \<in> set (takeWhile (\<lambda>c. c \<noteq> CHR ''/'') rest)
             then Inl (Error ''first path segment in URL cannot contain colon'')
             else if (scheme \<noteq> [] \<or> \<not> hasPrefix rest ''///'') \<and> hasPrefix rest ''//'' then
               (let authority = takeWhile (\<lambda>c. c \<noteq> CHR ''/'') (drop 2 rest);
                    rest = dropWhile (\<lambda>c. c \<noteq> CHR ''/'') (drop 2 rest)
                in case parseHost authority of
                     Inl err \<Rightarrow> Inl err
                   | Inr host \<Rightarrow> Inr (url\<lparr>URL.Host := host, Path := rest\<rparr>))
             else Inr (url\<lparr>Path := rest\<rparr>))"

text \<open>
  The platform of the examples. Its parser is the one above on plain strings and rejects
  every other string (the library accepts some of them; no example uses one). Its
  \<^verbatim>\<open>EscapedPath\<close> is right for paths in which nothing needs escaping. The default
  transport refuses every connection; the state behind a transport counts its calls.
\<close>

definition refuse :: "nat RoundTripper" where
  "refuse r n = ((None, Some (Error ''connection refused'')), n + 1)"

definition echo :: "nat RoundTripper" where
  "echo r n =
     ((Some \<lparr>StatusCode = 200, Header = [(''Host'', Request.Host r)], Body = Request.Body r\<rparr>, None),
      n + 1)"

definition demo_platform :: "nat platform" where
  "demo_platform =
     \<lparr>http_DefaultTransport = refuse,
      log_Default = Sink 0,
      url_Parse = (\<lambda>s. if list_all plain s then parse s
                        else Inl (Error ''outside the modelled part of url.Parse'')),
      EscapedPath = (\<lambda>u. if RawPath u \<noteq> [] then RawPath u else Path u)\<rparr>"

definition demo_request :: Request where
  "demo_request =
     \<lparr>Method = ''GET'',
      URL = \<lparr>Scheme = [], Opaque = [], Host = [], Path = ''/dir'', RawPath = [], RawQuery = ''a=1''\<rparr>,
      Host = ''client.example'', Header = [], Body = []\<rparr>"

definition demo_world :: "nat world" where
  "demo_world = \<lparr>draws = (\<lambda>n. real n + 1 / 2), drawn = 0, trace = [], net = 0\<rparr>"

text \<open>
  A configuration with every fault switched on: always drop, delays of mean 10 ms capped
  at 1000 ms, and a seed.
\<close>

definition demo_cfg :: "nat ProxyConfig" where
  "demo_cfg =
     \<lparr>DestURL = ''http://backend:8080/base'', ProbDrop = 1,
      PreDelayRate = 1 / 10, PreDelayMax = 1000,
      PostDelayRate = 1 / 10, PostDelayMax = 1000,
      Seed = 42, Transport = Some echo, Logger = None\<rparr>"

section \<open>Facts about the closures\<close>

text \<open>A delay closure changes the world at most by taking one value from the source.\<close>

lemma preDelay_snd:
  "snd (preDelay cfg w) = w\<lparr>drawn := drawn w + (if PreDelayRate cfg \<le> 0 then 0 else 1)\<rparr>"
  by (simp add: preDelay_def Exponential_Rand_def rand_ExpFloat64_def Let_def)

lemma postDelay_snd:
  "snd (postDelay cfg w) = w\<lparr>drawn := drawn w + (if PostDelayRate cfg \<le> 0 then 0 else 1)\<rparr>"
  by (simp add: postDelay_def Exponential_Rand_def rand_ExpFloat64_def Let_def)

text \<open>
  One round trip, written out: the result is the result of the underlying transport, and
  the world gains eight events in the order of the source's statements.
\<close>

lemma roundTrip_eq:
  "roundTrip logger t cfg r w =
     (let d = fst (preDelay cfg w);
          wa = snd (preDelay cfg w);
          d' = fst (postDelay cfg wa);
          wb = snd (postDelay cfg wa)
      in (fst (t r (net w)),
          w\<lparr>drawn := drawn wb,
            trace := trace w @
              [Log logger InfoLevel ''Incoming request'' [],
               Log logger DebugLevel ''Sleeping for %s before request.'' [DurationVal d],
               Sleep d,
               Log logger DebugLevel ''Sending request to %q'' [StringVal (DestURL cfg)],
               Forward r,
               Log logger DebugLevel ''Sleeping for %s after response returned.'' [DurationVal d'],
               Sleep d',
               Log logger DebugLevel ''Returning response to client.'' []],
            net := snd (t r (net w))\<rparr>))"
  by (simp add: roundTrip_def Let_def t_RoundTrip_def logger_Info_def logger_Debug_def
      time_Sleep_def emit_def case_prod_beta preDelay_def postDelay_def Exponential_Rand_def
      rand_ExpFloat64_def)

lemma MakeRoundTripper_eq:
  "MakeRoundTripper env cfg =
     Inr (roundTrip (case Logger cfg of None \<Rightarrow> log_Default env | Some l \<Rightarrow> l)
            (case ProxyConfig.Transport cfg of None \<Rightarrow> http_DefaultTransport env | Some t \<Rightarrow> t) cfg)"
  by (simp add: MakeRoundTripper_def)

lemma sleeps_append: "sleeps (xs @ ys) = sleeps xs @ sleeps ys"
  by (induction xs rule: sleeps.induct) simp_all

lemma forwards_append: "forwards (xs @ ys) = forwards xs @ forwards ys"
  by (induction xs rule: forwards.induct) simp_all

lemma roundTrip_result: "fst (roundTrip logger t cfg r w) = fst (t r (net w))"
  by (simp add: roundTrip_eq Let_def)

lemma roundTrip_net: "net (snd (roundTrip logger t cfg r w)) = snd (t r (net w))"
  by (simp add: roundTrip_eq Let_def)

lemma roundTrip_drawn:
  "drawn (snd (roundTrip logger t cfg r w)) =
     drawn w + (if PreDelayRate cfg \<le> 0 then 0 else 1) + (if PostDelayRate cfg \<le> 0 then 0 else 1)"
  by (simp add: roundTrip_eq Let_def preDelay_snd postDelay_snd)

lemma roundTrip_effects:
  "effects (trace (snd (roundTrip logger t cfg r w))) =
     effects (trace w) @
       [Sleep (fst (preDelay cfg w)), Forward r,
        Sleep (fst (postDelay cfg (snd (preDelay cfg w))))]"
  by (simp add: roundTrip_eq Let_def effects_def)

lemma roundTrip_sleeps:
  "sleeps (trace (snd (roundTrip logger t cfg r w))) =
     sleeps (trace w) @ [fst (preDelay cfg w), fst (postDelay cfg (snd (preDelay cfg w)))]"
  by (simp add: roundTrip_eq Let_def sleeps_append)

lemma roundTrip_forwards:
  "forwards (trace (snd (roundTrip logger t cfg r w))) = forwards (trace w) @ [r]"
  by (simp add: roundTrip_eq Let_def forwards_append)

text \<open>Truncation and the product with \<^const>\<open>Millisecond\<close> inside the \<^verbatim>\<open>int64\<close> range.\<close>

lemma trunc_nonneg: "0 \<le> s \<Longrightarrow> 0 \<le> trunc s \<and> real_of_int (trunc s) \<le> s \<and> s < real_of_int (trunc s) + 1"
  by (simp add: trunc_def)

lemma trunc_mono_bound: "0 \<le> s \<Longrightarrow> s < 9223372036855 \<Longrightarrow> trunc s \<le> 9223372036854"
  by (simp add: trunc_def)

lemma sint_milliseconds:
  assumes "0 \<le> k" and "k \<le> 9223372036854"
  shows "sint (word_of_int k * Millisecond :: Duration) = k * 1000000"
proof -
  have eq: "(word_of_int k * Millisecond :: Duration) = word_of_int (k * 1000000)"
    by (simp add: Millisecond_def)
  have "sint (word_of_int (k * 1000000) :: Duration) = k * 1000000"
    using assms by (subst sint_sbintrunc') (simp add: signed_take_bit_int_eq_self)
  with eq show ?thesis by simp
qed

lemma clamp_sample:
  assumes "0 \<le> mx" and "mx < 9223372036855" and "0 \<le> s"
  shows "sint (Duration_of_float64 (if s > mx then mx else s) * Millisecond)
           = trunc (min s mx) * 1000000"
proof -
  let ?c = "min s mx"
  have c: "(if s > mx then mx else s) = ?c" by (simp add: min_def)
  have c0: "0 \<le> ?c" using assms by simp
  have cm: "?c < 9223372036855" using assms by simp
  show ?thesis
    unfolding c Duration_of_float64_def
    using sint_milliseconds [of "trunc ?c"] trunc_nonneg [OF c0] trunc_mono_bound [OF c0 cm]
    by simp
qed

text \<open>Neither \<^verbatim>\<open>ProbDrop\<close> nor \<^verbatim>\<open>Seed\<close> is read by a round trip.\<close>

lemma ProbDrop_unused: "roundTrip logger t (cfg\<lparr>ProbDrop := p\<rparr>) = roundTrip logger t cfg"
  by (intro ext) (simp add: roundTrip_eq preDelay_def postDelay_def Let_def case_prod_beta)

lemma Seed_unused: "roundTrip logger t (cfg\<lparr>Seed := sd\<rparr>) = roundTrip logger t cfg"
  by (intro ext) (simp add: roundTrip_eq preDelay_def postDelay_def Let_def case_prod_beta)

text \<open>Unfolding sets for running the package on the example platform.\<close>

lemmas run_defs =
  roundTrip_def preDelay_def postDelay_def Exponential_Rand_def rand_ExpFloat64_def
  t_RoundTrip_def logger_Info_def logger_Debug_def time_Sleep_def emit_def
  Duration_of_float64_def trunc_def Millisecond_def Let_def

lemmas parse_defs =
  parse_def getScheme_def parseHost_def validOptionalPort_def hasPrefix_def plain_def
  isLetter_def isDigit_def toLower_def Let_def

lemmas demo_defs =
  demo_platform_def demo_cfg_def demo_world_def demo_request_def echo_def refuse_def

lemma demo_MakeRoundTripper:
  "MakeRoundTripper demo_platform demo_cfg = Inr (roundTrip (Sink 0) echo demo_cfg)"
  by (simp add: MakeRoundTripper_def demo_platform_def demo_cfg_def)

lemma demo_Parse_relative:
  "url_Parse demo_platform ''/backend'' =
     Inr \<lparr>Scheme = [], Opaque = [], Host = [], Path = ''/backend'', RawPath = [], RawQuery = []\<rparr>"
  by (simp add: demo_platform_def parse_defs)

lemma demo_Parse_colon:
  "url_Parse demo_platform ''127.0.0.1:8080'' =
     Inl (Error ''first path segment in URL cannot contain colon'')"
  by (simp add: demo_platform_def parse_defs)

lemma demo_Parse_absolute:
  "url_Parse demo_platform ''http://backend:8080/base'' =
     Inr \<lparr>Scheme = ''http'', Opaque = [], Host = ''backend:8080'', Path = ''/base'',
          RawPath = [], RawQuery = []\<rparr>"
  by (simp add: demo_platform_def parse_defs)

section \<open>The claims\<close>

subsection \<open>C1: the drop decision\<close>

text \<open>
  C1 says that every round trip draws a uniform value and drops the request, without
  calling the underlying transport, when the value is below \<^verbatim>\<open>ProbDrop\<close>; in particular
  that \<^verbatim>\<open>ProbDrop = 1\<close> drops every request. The source has a placeholder comment where
  the decision belongs. Evaluated at \<^verbatim>\<open>ProbDrop = 1\<close>: the round tripper that
  \<^const>\<open>MakeRoundTripper\<close> builds forwards the request, the underlying transport is called
  once, and its response is what the caller gets.
\<close>

theorem ProbDrop_1_request_forwarded:
  "ProbDrop demo_cfg = 1
   \<and> MakeRoundTripper demo_platform demo_cfg = Inr (roundTrip (Sink 0) echo demo_cfg)
   \<and> fst (roundTrip (Sink 0) echo demo_cfg demo_request demo_world) =
       (Some \<lparr>StatusCode = 200, Header = [(''Host'', ''client.example'')], Body = []\<rparr>, None)
   \<and> forwards (trace (snd (roundTrip (Sink 0) echo demo_cfg demo_request demo_world))) = [demo_request]
   \<and> net (snd (roundTrip (Sink 0) echo demo_cfg demo_request demo_world)) = 1"
  by (simp add: demo_MakeRoundTripper roundTrip_result roundTrip_net roundTrip_forwards)
    (simp add: demo_defs)

subsection \<open>C2: reproducible delays for a fixed seed\<close>

text \<open>
  C2 says that with a fixed nonzero seed two runs with the same configuration sample the
  same delays. The source never reads \<^verbatim>\<open>cfg.Seed\<close>; both generators draw from the
  process-wide source. Evaluated with \<^verbatim>\<open>Seed = 42\<close>: the first round trip sleeps 5 ms and
  15 ms; a second round trip with the same configuration in the same process sleeps 25 ms
  and 35 ms; and a process whose source yields other values sleeps 15 ms and 25 ms.
\<close>

theorem Seed_42_delays_differ:
  "Seed demo_cfg = 42
   \<and> MakeRoundTripper demo_platform demo_cfg = Inr (roundTrip (Sink 0) echo demo_cfg)
   \<and> sleeps (trace (snd (roundTrip (Sink 0) echo demo_cfg demo_request demo_world))) =
       [5000000, 15000000]
   \<and> sleeps (trace (snd (roundTrip (Sink 0) echo demo_cfg demo_request
         (snd (roundTrip (Sink 0) echo demo_cfg demo_request demo_world))))) =
       [5000000, 15000000, 25000000, 35000000]
   \<and> sleeps (trace (snd (roundTrip (Sink 0) echo demo_cfg demo_request
         (demo_world\<lparr>draws := \<lambda>n. real n + 3 / 2\<rparr>)))) =
       [15000000, 25000000]"
  by (simp add: demo_MakeRoundTripper roundTrip_sleeps preDelay_snd postDelay_snd roundTrip_eq)
    (simp add: demo_defs run_defs)

subsection \<open>C3: construction fails on a bad destination\<close>

text \<open>
  C3, as amended: \<^const>\<open>MakeProxy\<close> fails, with the error of \<^verbatim>\<open>url.Parse\<close> and
  without a handler, exactly when \<^verbatim>\<open>url.Parse\<close> rejects the destination string.
  Construction acts on no world, so this is before any request is handled.
\<close>

theorem MakeProxy_fails_when_Parse_fails:
  "(url_Parse env (DestURL cfg) = Inl e \<longrightarrow>
      MakeProxy env cfg = Inl e \<and> (\<forall>p. MakeProxy env cfg \<noteq> Inr p))
   \<and> (MakeProxy env cfg = Inl e \<longrightarrow> url_Parse env (DestURL cfg) = Inl e)"
  by (auto simp: MakeProxy_def MakeRoundTripper_def split: sum.splits)

theorem MakeProxy_fails_when_Parse_fails_witness:
  "url_Parse demo_platform (DestURL (demo_cfg\<lparr>DestURL := ''127.0.0.1:8080''\<rparr>)) =
     Inl (Error ''first path segment in URL cannot contain colon'')
   \<and> MakeProxy demo_platform (demo_cfg\<lparr>DestURL := ''127.0.0.1:8080''\<rparr>) =
     Inl (Error ''first path segment in URL cannot contain colon'')
   \<and> (\<forall>p. MakeProxy demo_platform (demo_cfg\<lparr>DestURL := ''127.0.0.1:8080''\<rparr>) \<noteq> Inr p)"
  using MakeProxy_fails_when_Parse_fails
    [of demo_platform "demo_cfg\<lparr>DestURL := ''127.0.0.1:8080''\<rparr>"
        "Error ''first path segment in URL cannot contain colon''"]
  by (simp add: demo_Parse_colon)

text \<open>
  C3 as stated asks for the failure whenever the destination is not a valid absolute URL.
  \<^verbatim>\<open>url.Parse\<close> accepts relative references, and the source checks nothing else: the
  destination \<^verbatim>\<open>/backend\<close> parses to a URL without scheme, and \<^const>\<open>MakeProxy\<close>
  returns a handler.
\<close>

theorem relative_destination_accepted:
  "url_Parse demo_platform (DestURL (demo_cfg\<lparr>DestURL := ''/backend''\<rparr>)) =
     Inr \<lparr>Scheme = [], Opaque = [], Host = [], Path = ''/backend'', RawPath = [], RawQuery = []\<rparr>
   \<and> \<not> IsAbs \<lparr>Scheme = [], Opaque = [], Host = [], Path = ''/backend'', RawPath = [], RawQuery = []\<rparr>
   \<and> \<not> isl (MakeProxy demo_platform (demo_cfg\<lparr>DestURL := ''/backend''\<rparr>))"
  by (simp add: demo_Parse_relative IsAbs_def MakeProxy_def MakeRoundTripper_def)

subsection \<open>C4: clamping and truncation of a sampled delay\<close>

text \<open>
  C4, as amended: for a rate above 0, a maximum \<open>max\<close> with \<open>0 \<le> max < 9223372036855\<close>
  (milliseconds) and a non-negative value \<open>s\<close> returned by \<^verbatim>\<open>Rand\<close>, each delay closure
  takes exactly one value from the source, clamps \<open>s\<close> to \<open>c = min s max\<close> (so \<open>c = max\<close>
  when \<open>s\<close> exceeds it, and \<open>0 \<le> c \<le> max\<close>), and returns the duration of \<open>trunc c\<close>
  milliseconds, where \<open>trunc c\<close> is the integer with \<open>0 \<le> trunc c \<le> c < trunc c + 1\<close>.
\<close>

theorem delay_clamped_then_truncated:
  "(0 < PreDelayRate cfg \<and> 0 \<le> PreDelayMax cfg \<and> PreDelayMax cfg < 9223372036855
      \<and> 0 \<le> fst (Exponential_Rand (PreDelayRate cfg) w) \<longrightarrow>
     (let s = fst (Exponential_Rand (PreDelayRate cfg) w); c = min s (PreDelayMax cfg)
      in snd (preDelay cfg w) = w\<lparr>drawn := drawn w + 1\<rparr>
       \<and> (s > PreDelayMax cfg \<longrightarrow> c = PreDelayMax cfg)
       \<and> 0 \<le> c \<and> c \<le> PreDelayMax cfg
       \<and> sint (fst (preDelay cfg w)) = trunc c * 1000000
       \<and> 0 \<le> trunc c \<and> real_of_int (trunc c) \<le> c \<and> c < real_of_int (trunc c) + 1))
   \<and> (0 < PostDelayRate cfg \<and> 0 \<le> PostDelayMax cfg \<and> PostDelayMax cfg < 9223372036855
      \<and> 0 \<le> fst (Exponential_Rand (PostDelayRate cfg) w) \<longrightarrow>
     (let s = fst (Exponential_Rand (PostDelayRate cfg) w); c = min s (PostDelayMax cfg)
      in snd (postDelay cfg w) = w\<lparr>drawn := drawn w + 1\<rparr>
       \<and> (s > PostDelayMax cfg \<longrightarrow> c = PostDelayMax cfg)
       \<and> 0 \<le> c \<and> c \<le> PostDelayMax cfg
       \<and> sint (fst (postDelay cfg w)) = trunc c * 1000000
       \<and> 0 \<le> trunc c \<and> real_of_int (trunc c) \<le> c \<and> c < real_of_int (trunc c) + 1))"
proof (intro conjI impI)
  let ?s = "fst (Exponential_Rand (PreDelayRate cfg) w)"
  let ?c = "min ?s (PreDelayMax cfg)"
  assume h: "0 < PreDelayRate cfg \<and> 0 \<le> PreDelayMax cfg \<and> PreDelayMax cfg < 9223372036855
      \<and> 0 \<le> ?s"
  have c0: "0 \<le> ?c" using h by simp
  have v: "fst (preDelay cfg w) =
      Duration_of_float64 (if ?s > PreDelayMax cfg then PreDelayMax cfg else ?s) * Millisecond"
    using h by (simp add: preDelay_def case_prod_beta Let_def)
  have m: "sint (fst (preDelay cfg w)) = trunc ?c * 1000000"
    unfolding v using h by (intro clamp_sample) simp_all
  show "let s = ?s; c = min s (PreDelayMax cfg)
      in snd (preDelay cfg w) = w\<lparr>drawn := drawn w + 1\<rparr>
       \<and> (s > PreDelayMax cfg \<longrightarrow> c = PreDelayMax cfg)
       \<and> 0 \<le> c \<and> c \<le> PreDelayMax cfg
       \<and> sint (fst (preDelay cfg w)) = trunc c * 1000000
       \<and> 0 \<le> trunc c \<and> real_of_int (trunc c) \<le> c \<and> c < real_of_int (trunc c) + 1"
    unfolding Let_def using h m trunc_nonneg [OF c0] by (simp add: preDelay_snd)
next
  let ?s = "fst (Exponential_Rand (PostDelayRate cfg) w)"
  let ?c = "min ?s (PostDelayMax cfg)"
  assume h: "0 < PostDelayRate cfg \<and> 0 \<le> PostDelayMax cfg \<and> PostDelayMax cfg < 9223372036855
      \<and> 0 \<le> ?s"
  have c0: "0 \<le> ?c" using h by simp
  have v: "fst (postDelay cfg w) =
      Duration_of_float64 (if ?s > PostDelayMax cfg then PostDelayMax cfg else ?s) * Millisecond"
    using h by (simp add: postDelay_def case_prod_beta Let_def)
  have m: "sint (fst (postDelay cfg w)) = trunc ?c * 1000000"
    unfolding v using h by (intro clamp_sample) simp_all
  show "let s = ?s; c = min s (PostDelayMax cfg)
      in snd (postDelay cfg w) = w\<lparr>drawn := drawn w + 1\<rparr>
       \<and> (s > PostDelayMax cfg \<longrightarrow> c = PostDelayMax cfg)
       \<and> 0 \<le> c \<and> c \<le> PostDelayMax cfg
       \<and> sint (fst (postDelay cfg w)) = trunc c * 1000000
       \<and> 0 \<le> trunc c \<and> real_of_int (trunc c) \<le> c \<and> c < real_of_int (trunc c) + 1"
    unfolding Let_def using h m trunc_nonneg [OF c0] by (simp add: postDelay_snd)
qed

theorem delay_clamped_then_truncated_witness:
  "0 < PreDelayRate demo_cfg \<and> 0 \<le> PreDelayMax demo_cfg \<and> PreDelayMax demo_cfg < 9223372036855
   \<and> fst (Exponential_Rand (PreDelayRate demo_cfg) demo_world) = 5
   \<and> 0 < PostDelayRate demo_cfg \<and> 0 \<le> PostDelayMax demo_cfg \<and> PostDelayMax demo_cfg < 9223372036855
   \<and> fst (Exponential_Rand (PostDelayRate demo_cfg) demo_world) = 5
   \<and> sint (fst (preDelay demo_cfg demo_world)) = 5000000
   \<and> sint (fst (postDelay demo_cfg demo_world)) = 5000000
   \<and> sint (fst (preDelay (demo_cfg\<lparr>PreDelayMax := 7 / 2\<rparr>) demo_world)) = 3000000"
  using delay_clamped_then_truncated [of demo_cfg demo_world]
    delay_clamped_then_truncated [of "demo_cfg\<lparr>PreDelayMax := 7 / 2\<rparr>" demo_world]
  by (simp add: demo_cfg_def demo_world_def Exponential_Rand_def rand_ExpFloat64_def trunc_def
      Let_def)

text \<open>
  C4 as stated holds for every \<open>max \<ge> 0\<close>. A \<^verbatim>\<open>time.Duration\<close> is an \<^verbatim>\<open>int64\<close> of
  nanoseconds, and the product with \<^verbatim>\<open>time.Millisecond\<close> wraps around from
  9223372036855 ms on: with \<open>max = 10^13\<close> and a drawn value above it, the clamped value is
  \<open>10^13\<close>, but the duration returned is negative instead of \<open>10^13\<close> ms.
\<close>

theorem huge_max_delay_wraps:
  "0 < PreDelayRate (demo_cfg\<lparr>PreDelayRate := 1 / 10 ^ 14, PreDelayMax := 10 ^ 13\<rparr>)
   \<and> 0 \<le> PreDelayMax (demo_cfg\<lparr>PreDelayRate := 1 / 10 ^ 14, PreDelayMax := 10 ^ 13\<rparr>)
   \<and> fst (Exponential_Rand (1 / 10 ^ 14) demo_world) = 5 * 10 ^ 13
   \<and> trunc (min (fst (Exponential_Rand (1 / 10 ^ 14) demo_world)) (10 ^ 13)) * 1000000
       = 10000000000000000000
   \<and> sint (fst (preDelay (demo_cfg\<lparr>PreDelayRate := 1 / 10 ^ 14, PreDelayMax := 10 ^ 13\<rparr>) demo_world))
       = - 8446744073709551616"
  by (simp add: demo_defs run_defs)

subsection \<open>C5: a rate of zero or less switches the delay off\<close>

text \<open>
  C5: when \<^verbatim>\<open>PreDelayRate \<le> 0\<close> the pre-delay closure returns 0 and leaves the world
  as it is (no value is taken from the source), and the first sleep of every round trip is
  0; the same for \<^verbatim>\<open>PostDelayRate \<le> 0\<close> and the second sleep; with both, a round trip
  takes no value from the source.
\<close>

theorem zero_rate_zero_delay:
  assumes "MakeRoundTripper env cfg = Inr rt"
  shows "(PreDelayRate cfg \<le> 0 \<longrightarrow>
            preDelay cfg w = (0, w)
          \<and> (\<exists>d'. sleeps (trace (snd (rt r w))) = sleeps (trace w) @ [0, d']))
       \<and> (PostDelayRate cfg \<le> 0 \<longrightarrow>
            postDelay cfg w = (0, w)
          \<and> (\<exists>d. sleeps (trace (snd (rt r w))) = sleeps (trace w) @ [d, 0]))
       \<and> (PreDelayRate cfg \<le> 0 \<and> PostDelayRate cfg \<le> 0 \<longrightarrow>
            drawn (snd (rt r w)) = drawn w)"
proof -
  from assms obtain l t where rt: "rt = roundTrip l t cfg"
    by (auto simp: MakeRoundTripper_eq)
  have pre: "preDelay cfg v = (0, v)" if "PreDelayRate cfg \<le> 0" for v :: "'a world"
    using that by (simp add: preDelay_def)
  have post: "postDelay cfg v = (0, v)" if "PostDelayRate cfg \<le> 0" for v :: "'a world"
    using that by (simp add: postDelay_def)
  show ?thesis
    by (simp add: rt roundTrip_sleeps roundTrip_drawn pre post)
qed

theorem zero_rate_zero_delay_witness:
  "MakeRoundTripper demo_platform (demo_cfg\<lparr>PreDelayRate := 0, PostDelayRate := - 1\<rparr>) =
     Inr (roundTrip (Sink 0) echo (demo_cfg\<lparr>PreDelayRate := 0, PostDelayRate := - 1\<rparr>))
   \<and> PreDelayRate (demo_cfg\<lparr>PreDelayRate := 0, PostDelayRate := - 1\<rparr>) \<le> 0
   \<and> PostDelayRate (demo_cfg\<lparr>PreDelayRate := 0, PostDelayRate := - 1\<rparr>) \<le> 0
   \<and> preDelay (demo_cfg\<lparr>PreDelayRate := 0, PostDelayRate := - 1\<rparr>) demo_world = (0, demo_world)
   \<and> postDelay (demo_cfg\<lparr>PreDelayRate := 0, PostDelayRate := - 1\<rparr>) demo_world = (0, demo_world)
   \<and> drawn (snd (roundTrip (Sink 0) echo (demo_cfg\<lparr>PreDelayRate := 0, PostDelayRate := - 1\<rparr>)
        demo_request demo_world)) = 0"
proof -
  let ?cfg = "demo_cfg\<lparr>PreDelayRate := 0, PostDelayRate := - 1\<rparr>"
  have mk: "MakeRoundTripper demo_platform ?cfg = Inr (roundTrip (Sink 0) echo ?cfg)"
    by (simp add: MakeRoundTripper_def demo_platform_def demo_cfg_def)
  have d0: "drawn demo_world = 0" by (simp add: demo_world_def)
  show ?thesis
    using zero_rate_zero_delay [OF mk, of demo_world demo_request] mk d0 by simp
qed

subsection \<open>C6: the order of the steps of one round trip\<close>

text \<open>
  C6 says that a round trip runs pre-delay, drop-check, forward, post-delay and return in
  this order, with the post-delay applied in every case. The source has no drop-check
  between the pre-delay and the forwarding (the placeholder of C1). Evaluated at
  \<^verbatim>\<open>ProbDrop = 1\<close> with both delays switched off: the effects of the round trip are the
  first sleep, the forwarding and the second sleep, and no random value is drawn, so no
  drop decision was taken. (The order of the other steps and the unconditional post-delay
  hold for every input: \<open>roundTrip_effects\<close>.)
\<close>

theorem no_drop_check_between_delay_and_forward:
  "ProbDrop (demo_cfg\<lparr>PreDelayRate := 0, PostDelayRate := 0\<rparr>) = 1
   \<and> MakeRoundTripper demo_platform (demo_cfg\<lparr>PreDelayRate := 0, PostDelayRate := 0\<rparr>) =
       Inr (roundTrip (Sink 0) echo (demo_cfg\<lparr>PreDelayRate := 0, PostDelayRate := 0\<rparr>))
   \<and> effects (trace (snd (roundTrip (Sink 0) echo (demo_cfg\<lparr>PreDelayRate := 0, PostDelayRate := 0\<rparr>)
        demo_request demo_world))) = [Sleep 0, Forward demo_request, Sleep 0]
   \<and> drawn (snd (roundTrip (Sink 0) echo (demo_cfg\<lparr>PreDelayRate := 0, PostDelayRate := 0\<rparr>)
        demo_request demo_world)) = drawn demo_world"
proof -
  let ?cfg = "demo_cfg\<lparr>PreDelayRate := 0, PostDelayRate := 0\<rparr>"
  have "ProbDrop ?cfg = 1"
    by (simp add: demo_cfg_def)
  moreover have "MakeRoundTripper demo_platform ?cfg = Inr (roundTrip (Sink 0) echo ?cfg)"
    by (simp add: MakeRoundTripper_def demo_platform_def demo_cfg_def)
  moreover have "effects (trace (snd (roundTrip (Sink 0) echo ?cfg demo_request demo_world))) =
      [Sleep 0, Forward demo_request, Sleep 0]"
    by (simp add: roundTrip_effects preDelay_def postDelay_def)
      (simp add: effects_def demo_world_def)
  moreover have "drawn (snd (roundTrip (Sink 0) echo ?cfg demo_request demo_world)) = drawn demo_world"
    by (simp add: roundTrip_drawn)
  ultimately show ?thesis by simp
qed

subsection \<open>C7: the rewrite of the outbound request\<close>

text \<open>
  C7: for every inbound request the \<^verbatim>\<open>Rewrite\<close> hook of the assembled proxy sets the
  outbound URL's scheme and host to those of the parsed destination and its path to the
  destination's path joined with the request's path, sets the outbound \<^verbatim>\<open>Host\<close> to the
  inbound request's \<^verbatim>\<open>Host\<close>, and leaves the inbound request as it is.
\<close>

theorem rewrite_targets_destination_keeps_host:
  assumes "MakeProxy env cfg = Inr p" and "url_Parse env (DestURL cfg) = Inr u"
  shows "Scheme (URL (Out (Rewrite p pr))) = Scheme u
       \<and> URL.Host (URL (Out (Rewrite p pr))) = URL.Host u
       \<and> (Path (URL (Out (Rewrite p pr))), RawPath (URL (Out (Rewrite p pr)))) =
           joinURLPath env u ((URL (Out pr))\<lparr>Scheme := Scheme u, URL.Host := URL.Host u\<rparr>)
       \<and> Request.Host (Out (Rewrite p pr)) = Request.Host (In pr)
       \<and> In (Rewrite p pr) = In pr"
  using assms
  by (auto simp: MakeProxy_def MakeRoundTripper_def rewrite_def SetURL_def rewriteRequestURL_def
      Let_def case_prod_beta split: sum.splits)

theorem rewrite_targets_destination_keeps_host_witness:
  "url_Parse demo_platform (DestURL demo_cfg) =
     Inr \<lparr>Scheme = ''http'', Opaque = [], Host = ''backend:8080'', Path = ''/base'',
          RawPath = [], RawQuery = []\<rparr>
   \<and> MakeProxy demo_platform demo_cfg =
      Inr \<lparr>Transport = roundTrip (Sink 0) echo demo_cfg,
           Rewrite = rewrite demo_platform
             \<lparr>Scheme = ''http'', Opaque = [], Host = ''backend:8080'', Path = ''/base'',
              RawPath = [], RawQuery = []\<rparr>\<rparr>
   \<and> Scheme (URL (Out (rewrite demo_platform
         \<lparr>Scheme = ''http'', Opaque = [], Host = ''backend:8080'', Path = ''/base'',
          RawPath = [], RawQuery = []\<rparr> \<lparr>In = demo_request, Out = demo_request\<rparr>))) = ''http''
   \<and> URL.Host (URL (Out (rewrite demo_platform
         \<lparr>Scheme = ''http'', Opaque = [], Host = ''backend:8080'', Path = ''/base'',
          RawPath = [], RawQuery = []\<rparr> \<lparr>In = demo_request, Out = demo_request\<rparr>))) = ''backend:8080''
   \<and> Path (URL (Out (rewrite demo_platform
         \<lparr>Scheme = ''http'', Opaque = [], Host = ''backend:8080'', Path = ''/base'',
          RawPath = [], RawQuery = []\<rparr> \<lparr>In = demo_request, Out = demo_request\<rparr>))) = ''/base/dir''
   \<and> Request.Host (Out (rewrite demo_platform
         \<lparr>Scheme = ''http'', Opaque = [], Host = ''backend:8080'', Path = ''/base'',
          RawPath = [], RawQuery = []\<rparr> \<lparr>In = demo_request, Out = demo_request\<rparr>)) = ''client.example''
   \<and> fst (roundTrip (Sink 0) echo demo_cfg (Out (rewrite demo_platform
         \<lparr>Scheme = ''http'', Opaque = [], Host = ''backend:8080'', Path = ''/base'',
          RawPath = [], RawQuery = []\<rparr> \<lparr>In = demo_request, Out = demo_request\<rparr>)) demo_world) =
       (Some \<lparr>StatusCode = 200, Header = [(''Host'', ''client.example'')], Body = []\<rparr>, None)"
proof -
  let ?u = "\<lparr>Scheme = ''http'', Opaque = [], Host = ''backend:8080'', Path = ''/base'',
          RawPath = [], RawQuery = []\<rparr>"
  let ?p = "\<lparr>Transport = roundTrip (Sink 0) echo demo_cfg, Rewrite = rewrite demo_platform ?u\<rparr>"
  have u: "url_Parse demo_platform (DestURL demo_cfg) = Inr ?u"
    using demo_Parse_absolute by (simp add: demo_cfg_def)
  have p: "MakeProxy demo_platform demo_cfg = Inr ?p"
    by (simp add: MakeProxy_def u demo_MakeRoundTripper)
  have j: "joinURLPath demo_platform ?u
        ((URL (Out \<lparr>In = demo_request, Out = demo_request\<rparr>))\<lparr>Scheme := Scheme ?u, URL.Host := URL.Host ?u\<rparr>)
      = (''/base/dir'', [])"
    by (simp add: joinURLPath_def singleJoiningSlash_def demo_request_def)
  have h: "Request.Host (In \<lparr>In = demo_request, Out = demo_request\<rparr>) = ''client.example''"
    by (simp add: demo_request_def)
  have b: "Request.Body (Out (rewrite demo_platform ?u \<lparr>In = demo_request, Out = demo_request\<rparr>)) = []"
    by (simp add: rewrite_def SetURL_def rewriteRequestURL_def Let_def case_prod_beta
        demo_request_def)
  show ?thesis
    using rewrite_targets_destination_keeps_host [OF p u, of "\<lparr>In = demo_request, Out = demo_request\<rparr>"]
      u p j h b
    by (simp add: roundTrip_result echo_def)
qed

subsection \<open>C8: the result of the underlying transport is returned unchanged\<close>

text \<open>
  C8: every round trip returns exactly the pair of response and error that the selected
  underlying transport returned for the unchanged request; the transport is called once
  (one forwarding is added to the trace, and the state behind the transport is the one
  that this single call left).
\<close>

theorem forwarded_result_verbatim:
  assumes "MakeRoundTripper env cfg = Inr rt"
    and "t = (case ProxyConfig.Transport cfg of None \<Rightarrow> http_DefaultTransport env | Some t \<Rightarrow> t)"
  shows "fst (rt r w) = fst (t r (net w))
       \<and> net (snd (rt r w)) = snd (t r (net w))
       \<and> forwards (trace (snd (rt r w))) = forwards (trace w) @ [r]"
  using assms
  by (auto simp: MakeRoundTripper_eq roundTrip_result roundTrip_net roundTrip_forwards)

theorem forwarded_result_verbatim_witness:
  "MakeRoundTripper demo_platform (demo_cfg\<lparr>ProxyConfig.Transport := None\<rparr>) =
     Inr (roundTrip (Sink 0) refuse (demo_cfg\<lparr>ProxyConfig.Transport := None\<rparr>))
   \<and> fst (roundTrip (Sink 0) refuse (demo_cfg\<lparr>ProxyConfig.Transport := None\<rparr>) demo_request demo_world)
       = (None, Some (Error ''connection refused''))
   \<and> net (snd (roundTrip (Sink 0) refuse (demo_cfg\<lparr>ProxyConfig.Transport := None\<rparr>) demo_request demo_world))
       = 1
   \<and> forwards (trace (snd (roundTrip (Sink 0) refuse (demo_cfg\<lparr>ProxyConfig.Transport := None\<rparr>)
        demo_request demo_world))) = [demo_request]"
proof -
  let ?cfg = "demo_cfg\<lparr>ProxyConfig.Transport := None\<rparr>"
  have mk: "MakeRoundTripper demo_platform ?cfg = Inr (roundTrip (Sink 0) refuse ?cfg)"
    by (simp add: MakeRoundTripper_def demo_platform_def demo_cfg_def)
  have t: "refuse = (case ProxyConfig.Transport ?cfg of None \<Rightarrow> http_DefaultTransport demo_platform | Some t \<Rightarrow> t)"
    by (simp add: demo_platform_def)
  show ?thesis
    using forwarded_result_verbatim [OF mk t, of demo_request demo_world] mk
    by (simp add: refuse_def demo_world_def)
qed

subsection \<open>C9: logging does not alter the result\<close>

text \<open>
  C9: for every configuration, request and world, the round tripper built with a
  configured logger and the one built with no logger (which uses the process-wide default)
  return the same pair of response and error, and have the same effects other than log
  events: the same sleeps and forwarding, the same number of values taken from the source
  and the same state behind the transport.
\<close>

theorem logger_does_not_alter_result:
  assumes "MakeRoundTripper env (cfg\<lparr>Logger := Some l\<rparr>) = Inr rt"
    and "MakeRoundTripper env (cfg\<lparr>Logger := None\<rparr>) = Inr rt'"
  shows "fst (rt r w) = fst (rt' r w)
       \<and> effects (trace (snd (rt r w))) = effects (trace (snd (rt' r w)))
       \<and> drawn (snd (rt r w)) = drawn (snd (rt' r w))
       \<and> net (snd (rt r w)) = net (snd (rt' r w))"
  using assms
  by (auto simp: MakeRoundTripper_eq roundTrip_result roundTrip_net roundTrip_effects roundTrip_drawn
      preDelay_def postDelay_def Exponential_Rand_def rand_ExpFloat64_def Let_def)

theorem logger_does_not_alter_result_witness:
  "MakeRoundTripper demo_platform (demo_cfg\<lparr>Logger := Some (Sink 7)\<rparr>) =
     Inr (roundTrip (Sink 7) echo (demo_cfg\<lparr>Logger := Some (Sink 7)\<rparr>))
   \<and> MakeRoundTripper demo_platform (demo_cfg\<lparr>Logger := None\<rparr>) =
     Inr (roundTrip (Sink 0) echo (demo_cfg\<lparr>Logger := None\<rparr>))
   \<and> fst (roundTrip (Sink 7) echo (demo_cfg\<lparr>Logger := Some (Sink 7)\<rparr>) demo_request demo_world) =
     fst (roundTrip (Sink 0) echo (demo_cfg\<lparr>Logger := None\<rparr>) demo_request demo_world)
   \<and> trace (snd (roundTrip (Sink 7) echo (demo_cfg\<lparr>Logger := Some (Sink 7)\<rparr>) demo_request demo_world)) \<noteq>
     trace (snd (roundTrip (Sink 0) echo (demo_cfg\<lparr>Logger := None\<rparr>) demo_request demo_world))"
proof -
  have a: "MakeRoundTripper demo_platform (demo_cfg\<lparr>Logger := Some (Sink 7)\<rparr>) =
     Inr (roundTrip (Sink 7) echo (demo_cfg\<lparr>Logger := Some (Sink 7)\<rparr>))"
    by (simp add: MakeRoundTripper_def demo_platform_def demo_cfg_def)
  have b: "MakeRoundTripper demo_platform (demo_cfg\<lparr>Logger := None\<rparr>) =
     Inr (roundTrip (Sink 0) echo (demo_cfg\<lparr>Logger := None\<rparr>))"
    by (simp add: MakeRoundTripper_def demo_platform_def demo_cfg_def)
  have c: "trace (snd (roundTrip (Sink 7) echo (demo_cfg\<lparr>Logger := Some (Sink 7)\<rparr>) demo_request demo_world)) \<noteq>
     trace (snd (roundTrip (Sink 0) echo (demo_cfg\<lparr>Logger := None\<rparr>) demo_request demo_world))"
    by (simp add: roundTrip_eq Let_def)
  show ?thesis
    using logger_does_not_alter_result [OF a b, of demo_request demo_world] a b c by simp
qed

subsection \<open>C10: the only construction error is the parse error\<close>

text \<open>
  C10: for every configuration \<^const>\<open>MakeRoundTripper\<close> returns no error but the round
  tripper over the selected logger and transport; when \<^verbatim>\<open>url.Parse\<close> accepts the
  destination as \<open>u\<close>, \<^const>\<open>MakeProxy\<close> returns no error but the proxy whose
  \<^verbatim>\<open>Transport\<close> is that round tripper and whose \<^verbatim>\<open>Rewrite\<close> is the rewrite to \<open>u\<close>; when
  \<^verbatim>\<open>url.Parse\<close> fails, \<^const>\<open>MakeProxy\<close> fails with the same error; and every error of
  \<^const>\<open>MakeProxy\<close> is the error of \<^verbatim>\<open>url.Parse\<close>.
\<close>

theorem MakeProxy_error_only_from_Parse:
  "MakeRoundTripper env cfg =
     Inr (roundTrip (case Logger cfg of None \<Rightarrow> log_Default env | Some l \<Rightarrow> l)
            (case ProxyConfig.Transport cfg of None \<Rightarrow> http_DefaultTransport env | Some t \<Rightarrow> t)
            cfg)
   \<and> (\<forall>e. MakeRoundTripper env cfg \<noteq> Inl e)
   \<and> (\<forall>u. url_Parse env (DestURL cfg) = Inr u \<longrightarrow>
         MakeProxy env cfg =
           Inr \<lparr>Transport =
                  roundTrip (case Logger cfg of None \<Rightarrow> log_Default env | Some l \<Rightarrow> l)
                    (case ProxyConfig.Transport cfg of
                       None \<Rightarrow> http_DefaultTransport env | Some t \<Rightarrow> t)
                    cfg,
                Rewrite = rewrite env u\<rparr>)
   \<and> (\<forall>e. url_Parse env (DestURL cfg) = Inl e \<longrightarrow> MakeProxy env cfg = Inl e)
   \<and> (\<forall>e. MakeProxy env cfg = Inl e \<longrightarrow> url_Parse env (DestURL cfg) = Inl e)"
proof (intro conjI allI impI)
  show mk: "MakeRoundTripper env cfg =
     Inr (roundTrip (case Logger cfg of None \<Rightarrow> log_Default env | Some l \<Rightarrow> l)
            (case ProxyConfig.Transport cfg of None \<Rightarrow> http_DefaultTransport env | Some t \<Rightarrow> t)
            cfg)"
    by (rule MakeRoundTripper_eq)
  show "MakeRoundTripper env cfg \<noteq> Inl e" for e
    by (simp add: mk)
  show "MakeProxy env cfg =
      Inr \<lparr>Transport =
             roundTrip (case Logger cfg of None \<Rightarrow> log_Default env | Some l \<Rightarrow> l)
               (case ProxyConfig.Transport cfg of
                  None \<Rightarrow> http_DefaultTransport env | Some t \<Rightarrow> t)
               cfg,
           Rewrite = rewrite env u\<rparr>"
    if "url_Parse env (DestURL cfg) = Inr u" for u
    using that by (simp add: MakeProxy_def mk)
  show "MakeProxy env cfg = Inl e" if "url_Parse env (DestURL cfg) = Inl e" for e
    using that by (simp add: MakeProxy_def)
  show "url_Parse env (DestURL cfg) = Inl e" if "MakeProxy env cfg = Inl e" for e
    using that by (simp add: MakeProxy_def mk split: sum.splits)
qed

theorem MakeProxy_error_only_from_Parse_witness:
  "url_Parse demo_platform (DestURL demo_cfg) =
     Inr \<lparr>Scheme = ''http'', Opaque = [], Host = ''backend:8080'', Path = ''/base'',
          RawPath = [], RawQuery = []\<rparr>
   \<and> MakeRoundTripper demo_platform demo_cfg = Inr (roundTrip (Sink 0) echo demo_cfg)
   \<and> MakeProxy demo_platform demo_cfg =
       Inr \<lparr>Transport = roundTrip (Sink 0) echo demo_cfg,
            Rewrite = rewrite demo_platform
              \<lparr>Scheme = ''http'', Opaque = [], Host = ''backend:8080'', Path = ''/base'',
               RawPath = [], RawQuery = []\<rparr>\<rparr>
   \<and> url_Parse demo_platform (DestURL (demo_cfg\<lparr>DestURL := ''127.0.0.1:8080''\<rparr>)) =
       Inl (Error ''first path segment in URL cannot contain colon'')
   \<and> MakeProxy demo_platform (demo_cfg\<lparr>DestURL := ''127.0.0.1:8080''\<rparr>) =
       Inl (Error ''first path segment in URL cannot contain colon'')"
proof -
  let ?u = "\<lparr>Scheme = ''http'', Opaque = [], Host = ''backend:8080'', Path = ''/base'',
          RawPath = [], RawQuery = []\<rparr>"
  let ?bad = "demo_cfg\<lparr>DestURL := ''127.0.0.1:8080''\<rparr>"
  have u: "url_Parse demo_platform (DestURL demo_cfg) = Inr ?u"
    using demo_Parse_absolute by (simp add: demo_cfg_def)
  have e: "url_Parse demo_platform (DestURL ?bad) =
       Inl (Error ''first path segment in URL cannot contain colon'')"
    using demo_Parse_colon by simp
  have l: "(case Logger demo_cfg of None \<Rightarrow> log_Default demo_platform | Some l \<Rightarrow> l) = Sink 0"
    by (simp add: demo_cfg_def demo_platform_def)
  have t: "(case ProxyConfig.Transport demo_cfg of
              None \<Rightarrow> http_DefaultTransport demo_platform | Some t \<Rightarrow> t) = echo"
    by (simp add: demo_cfg_def)
  note good = MakeProxy_error_only_from_Parse [of demo_platform demo_cfg]
  note bad = MakeProxy_error_only_from_Parse [of demo_platform ?bad]
  have 1: "MakeRoundTripper demo_platform demo_cfg = Inr (roundTrip (Sink 0) echo demo_cfg)"
    using good unfolding l t by (rule conjunct1)
  have 2: "MakeProxy demo_platform demo_cfg =
       Inr \<lparr>Transport = roundTrip (Sink 0) echo demo_cfg, Rewrite = rewrite demo_platform ?u\<rparr>"
    using good u unfolding l t by blast
  have 3: "MakeProxy demo_platform ?bad =
       Inl (Error ''first path segment in URL cannot contain colon'')"
    using bad e by blast
  from u 1 2 e 3 show ?thesis by (intro conjI)
qed

end
